theory Spec2Isabelle
  imports Main "HOL-Library.Monad_Syntax"
begin

section \<open>Python values\<close>

text \<open>
  The client (\<^verbatim>\<open>aiolava/lava.py\<close>) handles two kinds of Python values: the arguments a
  caller passes to an endpoint method, and the value \<^verbatim>\<open>responce.json()\<close> decodes from a
  response body. Both are plain data: \<^verbatim>\<open>None\<close>, booleans, integers, floats, strings,
  lists and dictionaries. A dictionary keeps its insertion order and has distinct keys;
  it is an association list here. A float is carried as data only (a mantissa and a
  binary exponent, an infinity or a NaN): the client never computes with one.
\<close>

datatype pyfloat = Finite int int | Infinite bool | NaN

datatype pyval =
    PNone
  | PBool bool
  | PInt int
  | PFloat pyfloat
  | PStr string
  | PList "pyval list"
  | PDict "(string \<times> pyval) list"

type_synonym pydict = "(string \<times> pyval) list"

text \<open>
  The name \<^verbatim>\<open>Dict\<close> of the module is \<^verbatim>\<open>typing.Dict\<close>, an object of the typing
  module and not a piece of data. The objects that the test \<^verbatim>\<open>result is Dict\<close> compares
  are therefore data or that one object.
\<close>

datatype pyobj = Data pyval | Typing_Dict

datatype error =
    ValidationError
  | LavaError pyval pyval
  | TransportError string
  | KeyError string
  | AttributeError
  | TypeError

text \<open>
  \<open>ValidationError\<close> is raised by \<^verbatim>\<open>validate_arguments\<close>. \<open>LavaError c m\<close> is
  \<^verbatim>\<open>LavaError(f'{c}: {m}')\<close>, kept as the two formatted values. \<open>TransportError e\<close> is
  the exception \<open>e\<close> of the HTTP library or of its JSON decoder, which the client does
  not catch. The last three are the built-in exceptions of a failed subscript or
  attribute access.
\<close>

fun py_is_Dict :: "pyobj \<Rightarrow> bool" where
  "py_is_Dict Typing_Dict = True"
| "py_is_Dict (Data v) = False"

text \<open>\<^verbatim>\<open>x.get(key)\<close> and \<^verbatim>\<open>x[key]\<close> for a string key.\<close>

fun py_get :: "pyobj \<Rightarrow> string \<Rightarrow> error + pyval" where
  "py_get (Data (PDict kvs)) key =
     Inr (case map_of kvs key of None \<Rightarrow> PNone | Some v \<Rightarrow> v)"
| "py_get (Data v) key = Inl AttributeError"
| "py_get Typing_Dict key = Inl TypeError"

fun py_getitem :: "pyobj \<Rightarrow> string \<Rightarrow> error + pyval" where
  "py_getitem (Data (PDict kvs)) key =
     (case map_of kvs key of None \<Rightarrow> Inl (KeyError key) | Some v \<Rightarrow> Inr v)"
| "py_getitem (Data v) key = Inl TypeError"
| "py_getitem Typing_Dict key = Inl TypeError"

section \<open>The transport and the world\<close>

record http_request =
  http_method :: string
  url :: string
  headers :: "(string \<times> string) list"
  data :: pydict

text \<open>
  \<^verbatim>\<open>session.request(method, url, headers=headers, data=data)\<close> raises an exception or
  yields a response; \<^verbatim>\<open>await responce.json()\<close> raises an exception (the body is not
  JSON) or returns the decoded value.
\<close>

datatype response = Response (json: "string + pyval")

type_synonym transport = "http_request \<Rightarrow> string + response"

text \<open>
  The world holds what a call can change: the requests handed to the transport so far,
  and the dictionary object that is the default value of the parameter \<^verbatim>\<open>data={}\<close> of
  \<^verbatim>\<open>_request\<close>. Python creates that object once, when the class body is executed, and
  every call that omits \<^verbatim>\<open>data\<close> works on it.
\<close>

record world =
  sent :: "http_request list"
  request_defaults :: pydict

definition world0 :: world where
  "world0 = \<lparr>sent = [], request_defaults = []\<rparr>"

section \<open>The client\<close>

record Lava =
  api_key :: string

definition path_prefix :: string where
  "path_prefix = ''https://api.lava.ru''"

definition init :: "string \<Rightarrow> world \<Rightarrow> Lava \<times> world" where
  "init key w = (\<lparr>api_key = key\<rparr>, w)"

subsection \<open>The dispatcher\<close>

definition pop :: "pydict \<Rightarrow> string \<Rightarrow> pydict" where
  "pop d key = filter (\<lambda>kv. fst kv \<noteq> key) d"

text \<open>
  The loop \<^verbatim>\<open>for key in list(data): if data[key] is None: data.pop(key)\<close>, over the
  snapshot of the keys. It returns the dictionary as the loop leaves it and the
  exception that stopped it, if any.
\<close>

fun strip_loop :: "string list \<Rightarrow> pydict \<Rightarrow> pydict \<times> error option" where
  "strip_loop [] d = (d, None)"
| "strip_loop (key # keys) d =
     (case map_of d key of
        None \<Rightarrow> (d, Some (KeyError key))
      | Some v \<Rightarrow> strip_loop keys (if v = PNone then pop d key else d))"

text \<open>Lines 416 to 419: the test on the decoded body.\<close>

definition check_result :: "pyval \<Rightarrow> error + pyval" where
  "check_result result =
     (if py_is_Dict (Data result) then
        (case py_get (Data result) ''status'' of
           Inl e \<Rightarrow> Inl e
         | Inr s \<Rightarrow>
             if s = PStr ''error'' then
               (case py_getitem (Data result) ''code'' of
                  Inl e \<Rightarrow> Inl e
                | Inr c \<Rightarrow>
                    (case py_getitem (Data result) ''messge'' of
                       Inl e \<Rightarrow> Inl e
                     | Inr m \<Rightarrow> Inl (LavaError c m)))
             else Inr result)
      else Inr result)"

type_synonym outcome = "(error + pyval) \<times> world"

definition request ::
  "transport \<Rightarrow> Lava \<Rightarrow> string \<Rightarrow> string \<Rightarrow> pydict option \<Rightarrow> world \<Rightarrow> outcome" where
  "request T self meth path data_arg w =
     (let d = (case data_arg of None \<Rightarrow> request_defaults w | Some d' \<Rightarrow> d');
          u = path_prefix @ path;
          hs = [(''Authorization'', api_key self)];
          (d1, stopped) = strip_loop (map fst d) d;
          w1 = (case data_arg of None \<Rightarrow> w\<lparr>request_defaults := d1\<rparr> | Some d' \<Rightarrow> w)
      in case stopped of
           Some e \<Rightarrow> (Inl e, w1)
         | None \<Rightarrow>
             (let req = \<lparr>http_method = meth, url = u, headers = hs, data = d1\<rparr>;
                  w2 = w1\<lparr>sent := sent w1 @ [req]\<rparr>
              in case T req of
                   Inl e \<Rightarrow> (Inl (TransportError e), w2)
                 | Inr responce \<Rightarrow>
                     (case json responce of
                        Inl e \<Rightarrow> (Inl (TransportError e), w2)
                      | Inr result \<Rightarrow> (check_result result, w2))))"

subsection \<open>Argument validation\<close>

text \<open>
  The decorator \<^verbatim>\<open>validate_arguments\<close> of the pydantic library checks every argument
  against the annotation of its parameter before the body of the method runs, and
  passes the converted values on. The annotations the client uses are \<^verbatim>\<open>str\<close>,
  \<^verbatim>\<open>float\<close>, \<^verbatim>\<open>int\<close>, \<^verbatim>\<open>HttpUrl\<close> and \<^verbatim>\<open>Optional\<close> of these. What pydantic accepts
  for each of the four base types, and what it converts an accepted value to, is the
  library's business: the four validators are parameters of the model. A validator
  returns the converted value, or \<open>None\<close> when pydantic rejects the argument.
\<close>

datatype annotation = Str_t | Float_t | Int_t | HttpUrl_t | Optional_t annotation

record pydantic =
  str_validator :: "pyval \<Rightarrow> pyval option"
  float_validator :: "pyval \<Rightarrow> pyval option"
  int_validator :: "pyval \<Rightarrow> pyval option"
  http_url_validator :: "pyval \<Rightarrow> pyval option"

text \<open>
  \<^verbatim>\<open>Optional[t]\<close> lets \<^verbatim>\<open>None\<close> through unchanged and hands anything else to \<open>t\<close>.
\<close>

fun validate :: "pydantic \<Rightarrow> annotation \<Rightarrow> pyval \<Rightarrow> pyval option" where
  "validate V Str_t x = str_validator V x"
| "validate V Float_t x = float_validator V x"
| "validate V Int_t x = int_validator V x"
| "validate V HttpUrl_t x = http_url_validator V x"
| "validate V (Optional_t t) x = (if x = PNone then Some PNone else validate V t x)"

text \<open>
  A decorated method: the validated call of the body, or \<^verbatim>\<open>ValidationError\<close> raised
  before the body has run, so with the world untouched.
\<close>

definition validate_arguments :: "(world \<Rightarrow> outcome) option \<Rightarrow> world \<Rightarrow> outcome" where
  "validate_arguments body w =
     (case body of None \<Rightarrow> (Inl ValidationError, w) | Some f \<Rightarrow> f w)"

subsection \<open>The endpoint methods\<close>

text \<open>
  An optional parameter that the caller leaves out has its default, \<^verbatim>\<open>None\<close>: the
  caller of the model passes \<open>PNone\<close> for it.
\<close>

definition test_ping :: "transport \<Rightarrow> Lava \<Rightarrow> world \<Rightarrow> outcome" where
  "test_ping T self = request T self ''GET'' ''/test/ping'' None"

definition wallet_list :: "transport \<Rightarrow> Lava \<Rightarrow> world \<Rightarrow> outcome" where
  "wallet_list T self = request T self ''GET'' ''/wallet/list'' None"

definition withdraw_create ::
  "pydantic \<Rightarrow> transport \<Rightarrow> Lava \<Rightarrow> pyval \<Rightarrow> pyval \<Rightarrow> pyval \<Rightarrow> pyval \<Rightarrow> pyval \<Rightarrow> pyval \<Rightarrow>
   pyval \<Rightarrow> pyval \<Rightarrow> world \<Rightarrow> outcome" where
  "withdraw_create V T self account amount service wallet_to order_id hook_url
       substract comment =
     validate_arguments (do {
       account \<leftarrow> validate V Str_t account;
       amount \<leftarrow> validate V Float_t amount;
       service \<leftarrow> validate V Str_t service;
       wallet_to \<leftarrow> validate V Str_t wallet_to;
       order_id \<leftarrow> validate V (Optional_t Str_t) order_id;
       hook_url \<leftarrow> validate V (Optional_t HttpUrl_t) hook_url;
       substract \<leftarrow> validate V (Optional_t Int_t) substract;
       comment \<leftarrow> validate V (Optional_t Str_t) comment;
       Some (request T self ''POST'' ''/withdraw/create'' (Some
         [(''account'', account),
          (''amount'', amount),
          (''service'', service),
          (''wallet_to'', wallet_to),
          (''order_id'', order_id),
          (''hook_url'', hook_url),
          (''substract'', substract),
          (''comment'', comment)]))
     })"

definition withdraw_info :: "pydantic \<Rightarrow> transport \<Rightarrow> Lava \<Rightarrow> pyval \<Rightarrow> world \<Rightarrow> outcome" where
  "withdraw_info V T self id' =
     validate_arguments (do {
       id' \<leftarrow> validate V Str_t id';
       Some (request T self ''POST'' ''/withdraw/info'' (Some [(''id'', id')]))
     })"

text \<open>
  The parameter \<^verbatim>\<open>comment: str = None\<close> of \<^verbatim>\<open>transfer_create\<close> has the default
  \<^verbatim>\<open>None\<close>, which makes it optional for pydantic as well.
\<close>

definition transfer_create ::
  "pydantic \<Rightarrow> transport \<Rightarrow> Lava \<Rightarrow> pyval \<Rightarrow> pyval \<Rightarrow> pyval \<Rightarrow> pyval \<Rightarrow> pyval \<Rightarrow>
   world \<Rightarrow> outcome" where
  "transfer_create V T self account_from account_to amount subtract comment =
     validate_arguments (do {
       account_from \<leftarrow> validate V Str_t account_from;
       account_to \<leftarrow> validate V Str_t account_to;
       amount \<leftarrow> validate V Float_t amount;
       subtract \<leftarrow> validate V (Optional_t Int_t) subtract;
       comment \<leftarrow> validate V (Optional_t Str_t) comment;
       Some (request T self ''POST'' ''/transfer/create'' (Some
         [(''account_from'', account_from),
          (''account_to'', account_to),
          (''amount'', amount),
          (''subtract'', subtract),
          (''comment'', comment)]))
     })"

definition transfer_info :: "pydantic \<Rightarrow> transport \<Rightarrow> Lava \<Rightarrow> pyval \<Rightarrow> world \<Rightarrow> outcome" where
  "transfer_info V T self id' =
     validate_arguments (do {
       id' \<leftarrow> validate V Str_t id';
       Some (request T self ''POST'' ''/transfer/info'' (Some [(''id'', id')]))
     })"

definition transactions_list ::
  "pydantic \<Rightarrow> transport \<Rightarrow> Lava \<Rightarrow> pyval \<Rightarrow> pyval \<Rightarrow> pyval \<Rightarrow> pyval \<Rightarrow> pyval \<Rightarrow> pyval \<Rightarrow>
   world \<Rightarrow> outcome" where
  "transactions_list V T self transfer_type account period_start period_end offset
       limit =
     validate_arguments (do {
       transfer_type \<leftarrow> validate V (Optional_t Str_t) transfer_type;
       account \<leftarrow> validate V (Optional_t Str_t) account;
       period_start \<leftarrow> validate V (Optional_t Str_t) period_start;
       period_end \<leftarrow> validate V (Optional_t Str_t) period_end;
       offset \<leftarrow> validate V (Optional_t Int_t) offset;
       limit \<leftarrow> validate V (Optional_t Int_t) limit;
       Some (request T self ''POST'' ''/transactions/list'' (Some
         [(''transfer_type'', transfer_type),
          (''account'', account),
          (''period_start'', period_start),
          (''period_end'', period_end),
          (''offset'', offset),
          (''limit'', limit)]))
     })"

definition invoice_create ::
  "pydantic \<Rightarrow> transport \<Rightarrow> Lava \<Rightarrow> pyval \<Rightarrow> pyval \<Rightarrow> pyval \<Rightarrow> pyval \<Rightarrow> pyval \<Rightarrow> pyval \<Rightarrow>
   pyval \<Rightarrow> pyval \<Rightarrow> pyval \<Rightarrow> pyval \<Rightarrow> pyval \<Rightarrow> pyval \<Rightarrow> world \<Rightarrow> outcome" where
  "invoice_create V T self wallet_to sum_v order_id hook_url success_url fail_url
       exprire substract custom_fields comment merchant_id merchant_name =
     validate_arguments (do {
       wallet_to \<leftarrow> validate V Str_t wallet_to;
       sum_v \<leftarrow> validate V Float_t sum_v;
       order_id \<leftarrow> validate V (Optional_t Str_t) order_id;
       hook_url \<leftarrow> validate V (Optional_t HttpUrl_t) hook_url;
       success_url \<leftarrow> validate V (Optional_t HttpUrl_t) success_url;
       fail_url \<leftarrow> validate V (Optional_t HttpUrl_t) fail_url;
       exprire \<leftarrow> validate V (Optional_t Int_t) exprire;
       substract \<leftarrow> validate V (Optional_t Int_t) substract;
       custom_fields \<leftarrow> validate V (Optional_t Str_t) custom_fields;
       comment \<leftarrow> validate V (Optional_t Str_t) comment;
       merchant_id \<leftarrow> validate V (Optional_t Str_t) merchant_id;
       merchant_name \<leftarrow> validate V (Optional_t Str_t) merchant_name;
       Some (request T self ''POST'' ''/invoice/create'' (Some
         [(''wallet_to'', wallet_to),
          (''sum'', sum_v),
          (''order_id'', order_id),
          (''hook_url'', hook_url),
          (''success_url'', success_url),
          (''fail_url'', fail_url),
          (''exprire'', exprire),
          (''substract'', substract),
          (''custom_fields'', custom_fields),
          (''comment'', comment),
          (''merchant_id'', merchant_id),
          (''merchant_name'', merchant_name)]))
     })"

definition invoice_info ::
  "pydantic \<Rightarrow> transport \<Rightarrow> Lava \<Rightarrow> pyval \<Rightarrow> pyval \<Rightarrow> world \<Rightarrow> outcome" where
  "invoice_info V T self id' order_id =
     validate_arguments (do {
       id' \<leftarrow> validate V (Optional_t Str_t) id';
       order_id \<leftarrow> validate V (Optional_t Str_t) order_id;
       Some (request T self ''POST'' ''/invoice/info'' (Some
         [(''id'', id'), (''order_id'', order_id)]))
     })"

definition invoice_set_webhook ::
  "pydantic \<Rightarrow> transport \<Rightarrow> Lava \<Rightarrow> pyval \<Rightarrow> world \<Rightarrow> outcome" where
  "invoice_set_webhook V T self url' =
     validate_arguments (do {
       url' \<leftarrow> validate V HttpUrl_t url';
       Some (request T self ''POST'' ''/invoice/set-webhook'' (Some [(''url'', url')]))
     })"

definition invoice_generate_secret_key :: "transport \<Rightarrow> Lava \<Rightarrow> world \<Rightarrow> outcome" where
  "invoice_generate_secret_key T self =
     request T self ''GET'' ''/invoice/generate-secret-key'' None"

subsection \<open>A call of an endpoint method\<close>

text \<open>
  One constructor for each public method, with the arguments in the order of the
  method's signature.
\<close>

datatype call =
    Test_ping
  | Wallet_list
  | Withdraw_create pyval pyval pyval pyval pyval pyval pyval pyval
  | Withdraw_info pyval
  | Transfer_create pyval pyval pyval pyval pyval
  | Transfer_info pyval
  | Transactions_list pyval pyval pyval pyval pyval pyval
  | Invoice_create pyval pyval pyval pyval pyval pyval pyval pyval pyval pyval pyval pyval
  | Invoice_info pyval pyval
  | Invoice_set_webhook pyval
  | Invoice_generate_secret_key

fun invoke :: "pydantic \<Rightarrow> transport \<Rightarrow> Lava \<Rightarrow> call \<Rightarrow> world \<Rightarrow> outcome" where
  "invoke V T self Test_ping = test_ping T self"
| "invoke V T self Wallet_list = wallet_list T self"
| "invoke V T self (Withdraw_create a b c d e f g h) =
     withdraw_create V T self a b c d e f g h"
| "invoke V T self (Withdraw_info a) = withdraw_info V T self a"
| "invoke V T self (Transfer_create a b c d e) = transfer_create V T self a b c d e"
| "invoke V T self (Transfer_info a) = transfer_info V T self a"
| "invoke V T self (Transactions_list a b c d e f) =
     transactions_list V T self a b c d e f"
| "invoke V T self (Invoice_create a b c d e f g h i j k l) =
     invoice_create V T self a b c d e f g h i j k l"
| "invoke V T self (Invoice_info a b) = invoice_info V T self a b"
| "invoke V T self (Invoice_set_webhook a) = invoice_set_webhook V T self a"
| "invoke V T self Invoice_generate_secret_key = invoice_generate_secret_key T self"

text \<open>
  The signature of the called method, read off the \<^verbatim>\<open>def\<close> line: each parameter's
  name and annotation, with the argument passed for it.
\<close>

fun signature :: "call \<Rightarrow> (string \<times> annotation \<times> pyval) list" where
  "signature Test_ping = []"
| "signature Wallet_list = []"
| "signature (Withdraw_create a b c d e f g h) =
     [(''account'', Str_t, a), (''amount'', Float_t, b), (''service'', Str_t, c),
      (''wallet_to'', Str_t, d), (''order_id'', Optional_t Str_t, e),
      (''hook_url'', Optional_t HttpUrl_t, f), (''substract'', Optional_t Int_t, g),
      (''comment'', Optional_t Str_t, h)]"
| "signature (Withdraw_info a) = [(''id'', Str_t, a)]"
| "signature (Transfer_create a b c d e) =
     [(''account_from'', Str_t, a), (''account_to'', Str_t, b), (''amount'', Float_t, c),
      (''subtract'', Optional_t Int_t, d), (''comment'', Optional_t Str_t, e)]"
| "signature (Transfer_info a) = [(''id'', Str_t, a)]"
| "signature (Transactions_list a b c d e f) =
     [(''transfer_type'', Optional_t Str_t, a), (''account'', Optional_t Str_t, b),
      (''period_start'', Optional_t Str_t, c), (''period_end'', Optional_t Str_t, d),
      (''offset'', Optional_t Int_t, e), (''limit'', Optional_t Int_t, f)]"
| "signature (Invoice_create a b c d e f g h i j k l) =
     [(''wallet_to'', Str_t, a), (''sum'', Float_t, b), (''order_id'', Optional_t Str_t, c),
      (''hook_url'', Optional_t HttpUrl_t, d), (''success_url'', Optional_t HttpUrl_t, e),
      (''fail_url'', Optional_t HttpUrl_t, f), (''exprire'', Optional_t Int_t, g),
      (''substract'', Optional_t Int_t, h), (''custom_fields'', Optional_t Str_t, i),
      (''comment'', Optional_t Str_t, j), (''merchant_id'', Optional_t Str_t, k),
      (''merchant_name'', Optional_t Str_t, l)]"
| "signature (Invoice_info a b) = [(''id'', Optional_t Str_t, a), (''order_id'', Optional_t Str_t, b)]"
| "signature (Invoice_set_webhook a) = [(''url'', HttpUrl_t, a)]"
| "signature Invoice_generate_secret_key = []"

text \<open>
  The arguments after validation, under their parameter names; \<open>None\<close> when pydantic
  rejects one of them.
\<close>

fun validated :: "pydantic \<Rightarrow> (string \<times> annotation \<times> pyval) list \<Rightarrow> pydict option" where
  "validated V [] = Some []"
| "validated V ((name, t, x) # ps) =
     (case validate V t x of
        None \<Rightarrow> None
      | Some v \<Rightarrow> (case validated V ps of None \<Rightarrow> None | Some kvs \<Rightarrow> Some ((name, v) # kvs)))"

text \<open>The endpoint table of section 6 of the specification: method and path.\<close>

fun spec_method :: "call \<Rightarrow> string" where
  "spec_method Test_ping = ''GET''"
| "spec_method Wallet_list = ''GET''"
| "spec_method Invoice_generate_secret_key = ''GET''"
| "spec_method c = ''POST''"

fun spec_path :: "call \<Rightarrow> string" where
  "spec_path Test_ping = ''/test/ping''"
| "spec_path Wallet_list = ''/wallet/list''"
| "spec_path (Withdraw_create a b c d e f g h) = ''/withdraw/create''"
| "spec_path (Withdraw_info a) = ''/withdraw/info''"
| "spec_path (Transfer_create a b c d e) = ''/transfer/create''"
| "spec_path (Transfer_info a) = ''/transfer/info''"
| "spec_path (Transactions_list a b c d e f) = ''/transactions/list''"
| "spec_path (Invoice_create a b c d e f g h i j k l) = ''/invoice/create''"
| "spec_path (Invoice_info a b) = ''/invoice/info''"
| "spec_path (Invoice_set_webhook a) = ''/invoice/set-webhook''"
| "spec_path Invoice_generate_secret_key = ''/invoice/generate-secret-key''"

section \<open>Notions used in the statements\<close>

text \<open>The requests a computation hands to the transport when it starts in world \<open>w\<close>.\<close>

definition new_requests :: "(world \<Rightarrow> outcome) \<Rightarrow> world \<Rightarrow> http_request list" where
  "new_requests f w = drop (length (sent w)) (sent (snd (f w)))"

text \<open>
  What the transport and the decoder deliver for a request: the decoded body, or the
  exception of either.
\<close>

definition delivered :: "transport \<Rightarrow> http_request \<Rightarrow> error + pyval" where
  "delivered T req =
     (case T req of
        Inl e \<Rightarrow> Inl (TransportError e)
      | Inr responce \<Rightarrow>
          (case json responce of Inl e \<Rightarrow> Inl (TransportError e) | Inr result \<Rightarrow> Inr result))"

text \<open>
  A body signals a business failure when it is a mapping whose \<^verbatim>\<open>status\<close> field is the
  string \<^verbatim>\<open>error\<close> (step 6 of the dispatch routine in the specification; the right
  operand of the test in line 416).
\<close>

fun signals_failure :: "pyval \<Rightarrow> bool" where
  "signals_failure (PDict kvs) = (map_of kvs ''status'' = Some (PStr ''error''))"
| "signals_failure v = False"

text \<open>The entries of a dictionary whose value is not \<^verbatim>\<open>None\<close>.\<close>

definition present :: "pydict \<Rightarrow> pydict" where
  "present d = filter (\<lambda>kv. snd kv \<noteq> PNone) d"

subsection \<open>Sample parameters\<close>

text \<open>
  A strict stand-in for pydantic, to run the model on concrete calls: a string for
  \<^verbatim>\<open>str\<close>, a float or an integer (converted) for \<^verbatim>\<open>float\<close>, an integer for \<^verbatim>\<open>int\<close>,
  and a string that starts with an http or https scheme for \<^verbatim>\<open>HttpUrl\<close>.
\<close>

definition sample_pydantic :: pydantic where
  "sample_pydantic =
     \<lparr>str_validator = (\<lambda>x. case x of PStr s \<Rightarrow> Some x | _ \<Rightarrow> None),
      float_validator =
        (\<lambda>x. case x of PFloat f \<Rightarrow> Some x | PInt n \<Rightarrow> Some (PFloat (Finite n 0)) | _ \<Rightarrow> None),
      int_validator = (\<lambda>x. case x of PInt n \<Rightarrow> Some x | _ \<Rightarrow> None),
      http_url_validator =
        (\<lambda>x. case x of
           PStr s \<Rightarrow>
             if take 7 s = ''http://'' \<or> take 8 s = ''https://'' then Some x else None
         | _ \<Rightarrow> None)\<rparr>"

text \<open>Simulated transports: one fixed reply to every request.\<close>

definition replying :: "pyval \<Rightarrow> transport" where
  "replying body req = Inr (Response (Inr body))"


definition error_body :: pyval where
  "error_body =
     PDict [(''status'', PStr ''error''), (''code'', PStr ''E1''),
            (''message'', PStr ''bad account'')]"

definition wallets_body :: pyval where
  "wallets_body =
     PList [PDict [(''account'', PStr ''R10000001''), (''currency'', PStr ''RUB''),
                   (''balance'', PStr ''1500.00'')]]"

text \<open>A session: calls made one after another on the same client.\<close>

fun run :: "pydantic \<Rightarrow> transport \<Rightarrow> Lava \<Rightarrow> call list \<Rightarrow> world \<Rightarrow> world" where
  "run V T self [] w = w"
| "run V T self (c # cs) w = run V T self cs (snd (invoke V T self c w))"

text \<open>
  A validated call as the endpoint table describes it: one request with the method and
  path of the endpoint, the credential as the only header and the present arguments
  as the data; the caller gets what the transport delivers.
\<close>

definition dispatched :: "transport \<Rightarrow> Lava \<Rightarrow> call \<Rightarrow> pydict \<Rightarrow> world \<Rightarrow> outcome" where
  "dispatched T self c kvs w =
     (let req = \<lparr>http_method = spec_method c, url = path_prefix @ spec_path c,
                 headers = [(''Authorization'', api_key self)], data = present kvs\<rparr>
      in (delivered T req, w\<lparr>sent := sent w @ [req]\<rparr>))"

section \<open>The dispatcher strips, sends and returns\<close>

lemma strip_loop_filter:
  "distinct (map fst d) \<Longrightarrow> distinct keys \<Longrightarrow> set keys \<subseteq> fst ` set d \<Longrightarrow>
   strip_loop keys d = (filter (\<lambda>kv. fst kv \<in> set keys \<longrightarrow> snd kv \<noteq> PNone) d, None)"
proof (induction keys arbitrary: d)
  case Nil
  then show ?case by simp
next
  case (Cons key keys)
  from Cons.prems obtain v where v: "(key, v) \<in> set d" by auto
  with Cons.prems have m: "map_of d key = Some v" by simp
  have uniq: "\<And>kv. kv \<in> set d \<Longrightarrow> fst kv = key \<Longrightarrow> snd kv = v"
    using Cons.prems(1) v by (metis eq_key_imp_eq_value prod.collapse)
  show ?case
  proof (cases "v = PNone")
    case True
    have d1: "distinct (map fst (pop d key))"
      using Cons.prems(1) by (simp add: pop_def distinct_map_filter)
    have d2: "set keys \<subseteq> fst ` set (pop d key)"
      using Cons.prems(2,3) by (force simp: pop_def)
    have "strip_loop keys (pop d key) =
        (filter (\<lambda>kv. fst kv \<in> set keys \<longrightarrow> snd kv \<noteq> PNone) (pop d key), None)"
      using Cons.IH [OF d1 _ d2] Cons.prems(2) by simp
    moreover have "filter (\<lambda>kv. fst kv \<in> set keys \<longrightarrow> snd kv \<noteq> PNone) (pop d key) =
        filter (\<lambda>kv. fst kv \<in> set (key # keys) \<longrightarrow> snd kv \<noteq> PNone) d"
      unfolding pop_def filter_filter
      by (rule filter_cong) (use uniq True in auto)
    ultimately show ?thesis using m True by simp
  next
    case False
    have d2: "set keys \<subseteq> fst ` set d" using Cons.prems(3) by simp
    have "strip_loop keys d = (filter (\<lambda>kv. fst kv \<in> set keys \<longrightarrow> snd kv \<noteq> PNone) d, None)"
      using Cons.IH [OF Cons.prems(1) _ d2] Cons.prems(2) by simp
    moreover have "filter (\<lambda>kv. fst kv \<in> set keys \<longrightarrow> snd kv \<noteq> PNone) d =
        filter (\<lambda>kv. fst kv \<in> set (key # keys) \<longrightarrow> snd kv \<noteq> PNone) d"
      by (rule filter_cong) (use uniq False in auto)
    ultimately show ?thesis using m False by simp
  qed
qed

lemma strip_loop_present:
  "distinct (map fst d) \<Longrightarrow> strip_loop (map fst d) d = (present d, None)"
  using strip_loop_filter [of d "map fst d"]
  by (simp add: present_def cong: filter_cong)

lemma check_result_id: "check_result result = Inr result"
  by (simp add: check_result_def)

lemma request_Some:
  "distinct (map fst d) \<Longrightarrow>
   request T self meth path (Some d) w =
     (let req = \<lparr>http_method = meth, url = path_prefix @ path,
                 headers = [(''Authorization'', api_key self)], data = present d\<rparr>
      in (delivered T req, w\<lparr>sent := sent w @ [req]\<rparr>))"
  by (simp add: request_def strip_loop_present delivered_def check_result_id Let_def
      split: sum.splits)

lemma request_None:
  "request_defaults w = [] \<Longrightarrow>
   request T self meth path None w =
     (let req = \<lparr>http_method = meth, url = path_prefix @ path,
                 headers = [(''Authorization'', api_key self)], data = []\<rparr>
      in (delivered T req, w\<lparr>sent := sent w @ [req]\<rparr>))"
  by (simp add: request_def delivered_def check_result_id Let_def
      split: sum.splits)

section \<open>Every endpoint method against the endpoint table\<close>

lemma bind_as_case: "Option.bind m f = (case m of None \<Rightarrow> None | Some x \<Rightarrow> f x)"
  by (cases m) simp_all

lemma invoke_decorated:
  "signature c \<noteq> [] \<Longrightarrow>
   invoke V T self c w =
     (case validated V (signature c) of
        None \<Rightarrow> (Inl ValidationError, w)
      | Some kvs \<Rightarrow> dispatched T self c kvs w)"
proof (cases c)
  case (Withdraw_create a b c d e f g h)
  then show ?thesis
    by (simp add: withdraw_create_def validate_arguments_def bind_as_case request_Some
        dispatched_def del: validate.simps split: option.split)
next
  case (Withdraw_info a)
  then show ?thesis
    by (simp add: withdraw_info_def validate_arguments_def bind_as_case request_Some
        dispatched_def del: validate.simps split: option.split)
next
  case (Transfer_create a b c d e)
  then show ?thesis
    by (simp add: transfer_create_def validate_arguments_def bind_as_case request_Some
        dispatched_def del: validate.simps split: option.split)
next
  case (Transfer_info a)
  then show ?thesis
    by (simp add: transfer_info_def validate_arguments_def bind_as_case request_Some
        dispatched_def del: validate.simps split: option.split)
next
  case (Transactions_list a b c d e f)
  then show ?thesis
    by (simp add: transactions_list_def validate_arguments_def bind_as_case request_Some
        dispatched_def del: validate.simps split: option.split)
next
  case (Invoice_create a b c d e f g h i j k l)
  then show ?thesis
    by (simp add: invoice_create_def validate_arguments_def bind_as_case request_Some
        dispatched_def del: validate.simps split: option.split)
next
  case (Invoice_info a b)
  then show ?thesis
    by (simp add: invoice_info_def validate_arguments_def bind_as_case request_Some
        dispatched_def del: validate.simps split: option.split)
next
  case (Invoice_set_webhook a)
  then show ?thesis
    by (simp add: invoice_set_webhook_def validate_arguments_def bind_as_case request_Some
        dispatched_def del: validate.simps split: option.split)
qed simp_all

lemma invoke_undecorated:
  "signature c = [] \<Longrightarrow>
   invoke V T self c w = request T self (spec_method c) (spec_path c) None w"
  by (cases c)
    (simp_all add: test_ping_def wallet_list_def invoice_generate_secret_key_def)

lemma invoke_eq:
  assumes "request_defaults w = []"
  shows "invoke V T self c w =
     (case validated V (signature c) of
        None \<Rightarrow> (Inl ValidationError, w)
      | Some kvs \<Rightarrow> dispatched T self c kvs w)"
proof (cases "signature c = []")
  case True
  then show ?thesis
    using assms by (simp add: invoke_undecorated request_None dispatched_def present_def)
next
  case False
  then show ?thesis by (rule invoke_decorated)
qed

lemma invoke_keeps_defaults:
  "request_defaults w = [] \<Longrightarrow> request_defaults (snd (invoke V T self c w)) = []"
  by (simp add: invoke_eq dispatched_def Let_def split: option.split)

lemma new_requests_invoke:
  assumes "request_defaults w = []"
  shows "new_requests (invoke V T self c) w =
     (case validated V (signature c) of
        None \<Rightarrow> []
      | Some kvs \<Rightarrow>
          [\<lparr>http_method = spec_method c, url = path_prefix @ spec_path c,
            headers = [(''Authorization'', api_key self)], data = present kvs\<rparr>])"
  by (simp add: new_requests_def invoke_eq [OF assms] dispatched_def Let_def
      split: option.split)


lemma validated_entry:
  "validated V ps = Some kvs \<Longrightarrow> (name, v) \<in> set kvs \<Longrightarrow>
   \<exists>t x. (name, t, x) \<in> set ps \<and> validate V t x = Some v"
proof (induction ps arbitrary: kvs)
  case Nil
  then show ?case by simp
next
  case (Cons p ps)
  obtain n t' x' where p: "p = (n, t', x')" by (cases p)
  from Cons.prems(1) obtain v' kvs' where
    v': "validate V t' x' = Some v'" and kvs': "validated V ps = Some kvs'"
    and kvs: "kvs = (n, v') # kvs'"
    by (auto simp: p split: option.splits)
  show ?case
  proof (cases "(name, v) = (n, v')")
    case True
    with v' show ?thesis by (auto simp: p)
  next
    case False
    with Cons.prems(2) kvs have "(name, v) \<in> set kvs'" by auto
    from Cons.IH [OF kvs' this] show ?thesis by auto
  qed
qed


lemma distinct_signature: "distinct (map fst (signature c))"
  by (cases c) simp_all

lemma signature_unique:
  assumes "(name, t, x) \<in> set (signature c)" and "(name, t', x') \<in> set (signature c)"
  shows "t' = t \<and> x' = x"
proof -
  have "map_of (signature c) name = Some (t, x)"
    by (rule map_of_is_SomeI [OF distinct_signature assms(1)])
  moreover have "map_of (signature c) name = Some (t', x')"
    by (rule map_of_is_SomeI [OF distinct_signature assms(2)])
  ultimately show ?thesis by simp
qed

text \<open>
  The default dictionary of \<^verbatim>\<open>_request\<close> is empty when the class is created, and no
  call puts anything into it: it is empty at every call of a session.
\<close>

lemma run_keeps_defaults:
  "request_defaults w = [] \<Longrightarrow> request_defaults (run V T self cs w) = []"
  by (induction cs arbitrary: w) (simp_all add: invoke_keeps_defaults)

lemma session_defaults_empty: "request_defaults (run V T self cs world0) = []"
  by (rule run_keeps_defaults) (simp add: world0_def)

lemma request_new_requests:
  "req \<in> set (new_requests (request T self meth path d) w) \<Longrightarrow>
   http_method req = meth \<and> url req = path_prefix @ path \<and>
   headers req = [(''Authorization'', api_key self)]"
  by (auto simp: request_def new_requests_def Let_def
      split: prod.splits option.splits sum.splits)

lemma invoke_new_requests:
  assumes "req \<in> set (new_requests (invoke V T self c) w)"
  shows "http_method req = spec_method c \<and> url req = path_prefix @ spec_path c \<and>
   headers req = [(''Authorization'', api_key self)]"
proof (cases "signature c = []")
  case True
  then have "new_requests (invoke V T self c) w =
      new_requests (request T self (spec_method c) (spec_path c) None) w"
    by (simp add: new_requests_def invoke_undecorated)
  with assms show ?thesis by (simp add: request_new_requests)
next
  case False
  show ?thesis
  proof (cases "validated V (signature c)")
    case None
    with assms False show ?thesis
      by (simp add: new_requests_def invoke_decorated)
  next
    case (Some kvs)
    with assms False show ?thesis
      by (simp add: new_requests_def invoke_decorated dispatched_def Let_def)
  qed
qed




lemma delivered_not_validation: "delivered T req \<noteq> Inl ValidationError"
  by (simp add: delivered_def split: sum.splits)

section \<open>The claims\<close>

text \<open>
  C1 (fails on the code). The claim: when the transport returns the decoded body
  \<^verbatim>\<open>{"status":"error","code":"E1","message":"bad account"}\<close>, every endpoint method
  raises \<^verbatim>\<open>LavaError\<close> with that code and message. The code does not: the test
  \<^verbatim>\<open>result is Dict\<close> compares the decoded body with the object \<^verbatim>\<open>typing.Dict\<close>, which
  no decoded body is, so the body that signals the failure comes back as the result
  of the call. Evaluated for \<^verbatim>\<open>test_ping\<close> on a fresh world.
\<close>

theorem error_body_returned_as_result:
  "signals_failure error_body \<and>
   fst (invoke V (replying error_body) self Test_ping world0) = Inr error_body"
  by (simp add: error_body_def test_ping_def request_def world0_def replying_def
      check_result_def)

text \<open>
  C2. For every endpoint call and every optional parameter left unset (\<^verbatim>\<open>None\<close>), the
  request handed to the transport has no key for that parameter, and no value of its
  data is \<^verbatim>\<open>None\<close>.
\<close>

theorem unset_optional_omitted:
  assumes "request_defaults w = []"
    and "req \<in> set (new_requests (invoke V T self c) w)"
    and "(name, Optional_t t, PNone) \<in> set (signature c)"
  shows "name \<notin> fst ` set (data req) \<and> PNone \<notin> snd ` set (data req)"
proof -
  from assms(1,2) obtain kvs where
    kvs: "validated V (signature c) = Some kvs" and d: "data req = present kvs"
    by (cases "validated V (signature c)") (simp_all add: new_requests_invoke)
  have "v = PNone" if "(name, v) \<in> set kvs" for v
  proof -
    from validated_entry [OF kvs that] obtain t' x' where
      m: "(name, t', x') \<in> set (signature c)" and v: "validate V t' x' = Some v"
      by blast
    from signature_unique [OF assms(3) m] v show ?thesis by simp
  qed
  then have "name \<notin> fst ` set (present kvs)"
    by (auto simp: present_def)
  moreover have "PNone \<notin> snd ` set (present kvs)"
    by (auto simp: present_def)
  ultimately show ?thesis by (simp add: d)
qed

theorem unset_optional_omitted_witness:
  "request_defaults world0 = [] \<and>
   \<lparr>http_method = ''POST'', url = ''https://api.lava.ru/invoice/info'',
     headers = [(''Authorization'', ''token'')], data = [(''id'', PStr ''inv1'')]\<rparr>
     \<in> set (new_requests
         (invoke sample_pydantic (replying wallets_body) \<lparr>api_key = ''token''\<rparr>
            (Invoice_info (PStr ''inv1'') PNone)) world0) \<and>
   (''order_id'', Optional_t Str_t, PNone)
     \<in> set (signature (Invoice_info (PStr ''inv1'') PNone)) \<and>
   ''order_id'' \<notin> fst ` set [(''id'', PStr ''inv1'')] \<and>
   PNone \<notin> snd ` set [(''id'', PStr ''inv1'')]"
proof -
  let ?req = "\<lparr>http_method = ''POST'', url = ''https://api.lava.ru/invoice/info'',
     headers = [(''Authorization'', ''token'')], data = [(''id'', PStr ''inv1'')]\<rparr>"
  have h1: "request_defaults world0 = []" by (simp add: world0_def)
  have h2: "?req \<in> set (new_requests
         (invoke sample_pydantic (replying wallets_body) \<lparr>api_key = ''token''\<rparr>
            (Invoice_info (PStr ''inv1'') PNone)) world0)"
    by (simp add: new_requests_invoke [OF h1] sample_pydantic_def present_def
        path_prefix_def del: invoke.simps)
  have h3: "(''order_id'', Optional_t Str_t, PNone)
     \<in> set (signature (Invoice_info (PStr ''inv1'') PNone))" by simp
  from unset_optional_omitted [OF h1 h2 h3] h1 h2 h3 show ?thesis by simp
qed









text \<open>
  C7. Every endpoint call that passes validation hands exactly one request to the
  transport, with the method and path of its endpoint: \<^verbatim>\<open>GET\<close> with empty data for
  \<^verbatim>\<open>test_ping\<close>, \<^verbatim>\<open>wallet_list\<close> and \<^verbatim>\<open>invoice_generate_secret_key\<close>, and \<^verbatim>\<open>POST\<close> with
  the present arguments, under their parameter names, for every other endpoint.
\<close>

theorem endpoint_method_and_path:
  "request_defaults w = [] \<Longrightarrow>
   new_requests (invoke V T self c) w =
     (case validated V (signature c) of
        None \<Rightarrow> []
      | Some kvs \<Rightarrow>
          [\<lparr>http_method =
              (if c \<in> {Test_ping, Wallet_list, Invoice_generate_secret_key}
               then ''GET'' else ''POST''),
            url = path_prefix @ spec_path c,
            headers = [(''Authorization'', api_key self)],
            data =
              (if c \<in> {Test_ping, Wallet_list, Invoice_generate_secret_key}
               then [] else present kvs)\<rparr>])"
proof -
  assume w: "request_defaults w = []"
  have m: "spec_method c =
      (if c \<in> {Test_ping, Wallet_list, Invoice_generate_secret_key} then ''GET'' else ''POST'')"
    by (cases c) simp_all
  have d: "c \<in> {Test_ping, Wallet_list, Invoice_generate_secret_key} \<Longrightarrow>
      validated V (signature c) = Some kvs \<Longrightarrow> present kvs = []" for kvs
    by (auto simp: present_def)
  show ?thesis
    unfolding new_requests_invoke [OF w] m
    by (cases "validated V (signature c)") (simp_all add: d)
qed

theorem endpoint_method_and_path_witness:
  "request_defaults world0 = [] \<and>
   new_requests (invoke sample_pydantic (replying wallets_body) \<lparr>api_key = ''token''\<rparr>
      Invoice_generate_secret_key) world0 =
     [\<lparr>http_method = ''GET'', url = ''https://api.lava.ru/invoice/generate-secret-key'',
       headers = [(''Authorization'', ''token'')], data = []\<rparr>] \<and>
   new_requests (invoke sample_pydantic (replying wallets_body) \<lparr>api_key = ''token''\<rparr>
      (Transfer_create (PStr ''R10000001'') (PStr ''R10000004'') (PInt 5) PNone
         (PStr ''Hello''))) world0 =
     [\<lparr>http_method = ''POST'', url = ''https://api.lava.ru/transfer/create'',
       headers = [(''Authorization'', ''token'')],
       data = [(''account_from'', PStr ''R10000001''), (''account_to'', PStr ''R10000004''),
               (''amount'', PFloat (Finite 5 0)), (''comment'', PStr ''Hello'')]\<rparr>]"
proof -
  have h: "request_defaults world0 = []" by (simp add: world0_def)
  from endpoint_method_and_path [OF h, of sample_pydantic "replying wallets_body"
      "\<lparr>api_key = ''token''\<rparr>" Invoice_generate_secret_key]
    endpoint_method_and_path [OF h, of sample_pydantic "replying wallets_body"
      "\<lparr>api_key = ''token''\<rparr>"
      "Transfer_create (PStr ''R10000001'') (PStr ''R10000004'') (PInt 5) PNone
         (PStr ''Hello'')"] h
  show ?thesis
    by (simp add: sample_pydantic_def present_def path_prefix_def del: invoke.simps)
qed

text \<open>
  C8. For every dispatched call, the URL of the request is the base URL followed by
  the path, and its only header is \<^verbatim>\<open>Authorization\<close> with the stored credential,
  unmodified. Stated for the dispatcher and for every endpoint call.
\<close>

theorem url_and_authorization:
  "(req \<in> set (new_requests (request T self meth path d) w) \<longrightarrow>
      url req = ''https://api.lava.ru'' @ path \<and>
      headers req = [(''Authorization'', api_key self)]) \<and>
   (req \<in> set (new_requests (invoke V T self c) w) \<longrightarrow>
      url req = ''https://api.lava.ru'' @ spec_path c \<and>
      headers req = [(''Authorization'', api_key self)])"
  using request_new_requests [of req T self meth path d w]
    invoke_new_requests [of req V T self c w]
  by (simp add: path_prefix_def)

theorem url_and_authorization_witness:
  "\<lparr>http_method = ''POST'', url = ''https://api.lava.ru/withdraw/info'',
     headers = [(''Authorization'', ''eyJ0eXAi.token'')], data = [(''id'', PStr ''3e22b0c8'')]\<rparr>
     \<in> set (new_requests (invoke sample_pydantic (replying wallets_body)
         \<lparr>api_key = ''eyJ0eXAi.token''\<rparr> (Withdraw_info (PStr ''3e22b0c8''))) world0) \<and>
   ''https://api.lava.ru/withdraw/info'' =
     ''https://api.lava.ru'' @ spec_path (Withdraw_info (PStr ''3e22b0c8'')) \<and>
   [(''Authorization'', ''eyJ0eXAi.token'')] =
     [(''Authorization'', api_key \<lparr>api_key = ''eyJ0eXAi.token''\<rparr>)]"
proof -
  let ?req = "\<lparr>http_method = ''POST'', url = ''https://api.lava.ru/withdraw/info'',
     headers = [(''Authorization'', ''eyJ0eXAi.token'')], data = [(''id'', PStr ''3e22b0c8'')]\<rparr>"
  have h0: "request_defaults world0 = []" by (simp add: world0_def)
  have h: "?req \<in> set (new_requests (invoke sample_pydantic (replying wallets_body)
         \<lparr>api_key = ''eyJ0eXAi.token''\<rparr> (Withdraw_info (PStr ''3e22b0c8''))) world0)"
    by (simp add: new_requests_invoke [OF h0] sample_pydantic_def present_def
        path_prefix_def del: invoke.simps)
  from url_and_authorization [of ?req "replying wallets_body"
      "\<lparr>api_key = ''eyJ0eXAi.token''\<rparr>" "''POST''" "''/withdraw/info''"
      "Some [(''id'', PStr ''3e22b0c8'')]" world0 sample_pydantic
      "Withdraw_info (PStr ''3e22b0c8'')"] h
  show ?thesis by simp
qed

text \<open>
  C9. \<^verbatim>\<open>invoice_info\<close> does not check the combination of \<^verbatim>\<open>id\<close> and \<^verbatim>\<open>order_id\<close>:
  whenever each of the two passes its own validation as an optional string (being
  unset passes), no \<^verbatim>\<open>ValidationError\<close> is raised, and one request goes out, with the
  set ones among the two as its data.
\<close>

theorem invoice_info_unchecked:
  assumes "validate V (Optional_t Str_t) id' = Some i"
    and "validate V (Optional_t Str_t) order_id = Some oid"
  shows "fst (invoice_info V T self id' order_id w) \<noteq> Inl ValidationError \<and>
    new_requests (invoice_info V T self id' order_id) w =
      [\<lparr>http_method = ''POST'', url = path_prefix @ ''/invoice/info'',
        headers = [(''Authorization'', api_key self)],
        data = present [(''id'', i), (''order_id'', oid)]\<rparr>]"
proof -
  have "invoice_info V T self id' order_id w =
      request T self ''POST'' ''/invoice/info'' (Some [(''id'', i), (''order_id'', oid)]) w"
    using assms by (simp add: invoice_info_def validate_arguments_def del: validate.simps)
  then show ?thesis
    by (simp add: request_Some new_requests_def delivered_not_validation Let_def)
qed

theorem invoice_info_unchecked_witness:
  "validate sample_pydantic (Optional_t Str_t) PNone = Some PNone \<and>
   validate sample_pydantic (Optional_t Str_t) (PStr ''1ee31634'') = Some (PStr ''1ee31634'') \<and>
   validate sample_pydantic (Optional_t Str_t) (PStr ''order_125'') = Some (PStr ''order_125'') \<and>
   new_requests (invoice_info sample_pydantic (replying wallets_body)
       \<lparr>api_key = ''token''\<rparr> PNone PNone) world0 =
     [\<lparr>http_method = ''POST'', url = ''https://api.lava.ru/invoice/info'',
       headers = [(''Authorization'', ''token'')], data = []\<rparr>] \<and>
   new_requests (invoice_info sample_pydantic (replying wallets_body)
       \<lparr>api_key = ''token''\<rparr> (PStr ''1ee31634'') (PStr ''order_125'')) world0 =
     [\<lparr>http_method = ''POST'', url = ''https://api.lava.ru/invoice/info'',
       headers = [(''Authorization'', ''token'')],
       data = [(''id'', PStr ''1ee31634''), (''order_id'', PStr ''order_125'')]\<rparr>]"
proof -
  have h1: "validate sample_pydantic (Optional_t Str_t) PNone = Some PNone" by simp
  have h2: "validate sample_pydantic (Optional_t Str_t) (PStr ''1ee31634'') =
      Some (PStr ''1ee31634'')"
    by (simp add: sample_pydantic_def)
  have h3: "validate sample_pydantic (Optional_t Str_t) (PStr ''order_125'') =
      Some (PStr ''order_125'')"
    by (simp add: sample_pydantic_def)
  from invoice_info_unchecked [OF h1 h1, of "replying wallets_body"
      "\<lparr>api_key = ''token''\<rparr>" world0]
    invoice_info_unchecked [OF h2 h3, of "replying wallets_body"
      "\<lparr>api_key = ''token''\<rparr>" world0] h1 h2 h3
  show ?thesis by (simp add: present_def path_prefix_def)
qed

text \<open>
  C10. Constructing the client checks nothing: for every string the constructor
  returns a client that stores it, with the world unchanged, and every request of that
  client carries the string as its \<^verbatim>\<open>Authorization\<close> header.
\<close>

theorem init_keeps_key:
  "init key w = (\<lparr>api_key = key\<rparr>, w) \<and>
   (req \<in> set (new_requests (invoke V T (fst (init key w)) c) w') \<longrightarrow>
      headers req = [(''Authorization'', key)])"
  using invoke_new_requests [of req V T "fst (init key w)" c w']
  by (simp add: init_def)

theorem init_keeps_key_witness:
  "init [] world0 = (\<lparr>api_key = []\<rparr>, world0) \<and>
   \<lparr>http_method = ''GET'', url = ''https://api.lava.ru/test/ping'',
     headers = [(''Authorization'', [])], data = []\<rparr>
     \<in> set (new_requests (invoke sample_pydantic (replying wallets_body)
         (fst (init [] world0)) Test_ping) world0)"
proof -
  let ?req = "\<lparr>http_method = ''GET'', url = ''https://api.lava.ru/test/ping'',
     headers = [(''Authorization'', [])], data = []\<rparr>"
  have h0: "request_defaults world0 = []" by (simp add: world0_def)
  have h: "?req \<in> set (new_requests (invoke sample_pydantic (replying wallets_body)
         (fst (init [] world0)) Test_ping) world0)"
    by (simp add: new_requests_invoke [OF h0] present_def path_prefix_def init_def
        del: invoke.simps)
  from init_keeps_key [of "[]" world0 ?req sample_pydantic "replying wallets_body"
      Test_ping world0] h
  show ?thesis by simp
qed

end
